theory Spec2Isabelle
  imports Main
begin

section \<open>Data model of the wenyan language server\<close>

text \<open>
  The repository holds three copies of the server module: \<^verbatim>\<open>part_000\<close> reads the position
  of a failure from the fields \<^verbatim>\<open>error.line\<close> and \<^verbatim>\<open>error.column\<close>; \<^verbatim>\<open>part_001\<close> and
  \<^verbatim>\<open>part_002\<close> (the same text, with and without comments) recover it from the message with
  two regular expressions. Definitions that differ between the copies carry the suffix
  \<open>_p0\<close> (for \<^verbatim>\<open>part_000\<close>) or \<open>_p1\<close> (for \<^verbatim>\<open>part_001\<close> and \<^verbatim>\<open>part_002\<close>).

  A JavaScript string is a sequence of UTF-16 code units; every character the server
  inspects lies in the Basic Multilingual Plane, so it is one code unit.
  Line and column numbers are integers; JavaScript's numbers are exact on the integers
  below \<open>2 ^ 53\<close> in magnitude, and the model computes with \<open>int\<close>.
\<close>

type_synonym jsstring = "nat list"

record Position =
  line :: int
  character :: int

record Range =
  start_pos :: Position
  end_pos :: Position

datatype DiagnosticSeverity = Error | Warning | Information | Hint

record Diagnostic =
  severity :: DiagnosticSeverity
  range_of :: Range
  message :: jsstring
  source :: jsstring

record PublishDiagnosticsParams =
  puri :: jsstring
  diagnostics :: "Diagnostic list"

record TextDocument =
  uri :: jsstring
  languageId :: jsstring
  version :: int
  content :: jsstring

text \<open>
  The value caught by \<^verbatim>\<open>catch (error: any)\<close>. An instance of the engine's
  \<^verbatim>\<open>WenyanError\<close> has a message and, in the engine of \<^verbatim>\<open>part_000\<close>, the numbers
  \<^verbatim>\<open>line\<close> and \<^verbatim>\<open>column\<close>; \<open>None\<close> stands for a field that is \<^verbatim>\<open>undefined\<close>.
  Any other thrown value is read through \<^verbatim>\<open>error.message\<close> only, which may be
  \<^verbatim>\<open>undefined\<close> (\<open>None\<close>) or a string. (The engine throws objects; a thrown
  \<^verbatim>\<open>null\<close>, whose message cannot be read, is not a value of this type.)
\<close>

record WenyanError =
  err_message :: jsstring
  err_line :: "int option"
  err_column :: "int option"

datatype thrown = Wenyan WenyanError | Other "jsstring option"

text \<open>
  The collaborators that are not part of the repository: the engine's lexer and parser
  (\<^verbatim>\<open>new Lexer(text).tokenize()\<close>, \<^verbatim>\<open>new Parser(tokens).parse()\<close>, each of which either
  returns or throws) and the text-document library (\<^verbatim>\<open>TextDocument.update\<close>,
  \<^verbatim>\<open>document.getText(range)\<close>). They are parameters of the model.
\<close>

record ('tok, 'chg) collaborators =
  tokenize :: "jsstring \<Rightarrow> thrown + 'tok"
  parse :: "'tok \<Rightarrow> thrown + unit"
  update :: "TextDocument \<Rightarrow> 'chg \<Rightarrow> int \<Rightarrow> TextDocument"
  getText :: "TextDocument \<Rightarrow> Range \<Rightarrow> jsstring"

text \<open>
  The server's state: the map \<^verbatim>\<open>documents\<close> and, for the effect of
  \<^verbatim>\<open>connection.sendDiagnostics\<close>, the sequence of notifications sent so far.
\<close>

record server =
  documents :: "jsstring \<rightharpoonup> TextDocument"
  sent :: "PublishDiagnosticsParams list"

definition sendDiagnostics :: "PublishDiagnosticsParams \<Rightarrow> server \<Rightarrow> server" where
  "sendDiagnostics p st = st\<lparr>sent := sent st @ [p]\<rparr>"

section \<open>validateDocument\<close>

text \<open>The body of the \<^verbatim>\<open>try\<close> block: tokenize, then parse; the first throw ends it.\<close>

definition try_block :: "('tok, 'chg) collaborators \<Rightarrow> jsstring \<Rightarrow> thrown + unit" where
  "try_block c txt = (case tokenize c txt of Inl err \<Rightarrow> Inl err | Inr tokens \<Rightarrow> parse c tokens)"

text \<open>
  \<^verbatim>\<open>x || 0\<close> on a number: \<^verbatim>\<open>NaN\<close> (here \<open>None\<close>) and \<open>0\<close> are falsy and give \<open>0\<close>,
  every other number is itself. \<^verbatim>\<open>undefined - 1\<close> is \<^verbatim>\<open>NaN\<close>.
\<close>

definition or0 :: "int option \<Rightarrow> int" where
  "or0 x = (case x of None \<Rightarrow> 0 | Some n \<Rightarrow> if n = 0 then 0 else n)"

definition minus1 :: "int option \<Rightarrow> int option" where
  "minus1 x = map_option (\<lambda>n. n - 1) x"

definition source_tag :: jsstring where
  "source_tag = [119, 101, 110, 121, 97, 110, 45, 108, 115, 112]"

definition unknown_error :: jsstring where
  "unknown_error = [26410, 30693, 38169, 35823]"

text \<open>The \<^verbatim>\<open>else\<close> branch of the \<^verbatim>\<open>catch\<close> block, the same in every copy.\<close>

definition other_diagnostic :: "jsstring option \<Rightarrow> Diagnostic" where
  "other_diagnostic m =
     \<lparr>severity = Error,
      range_of = \<lparr>start_pos = \<lparr>line = 0, character = 0\<rparr>,
                  end_pos = \<lparr>line = 0, character = 1\<rparr>\<rparr>,
      message = (case m of None \<Rightarrow> unknown_error
                 | Some s \<Rightarrow> if s = [] then unknown_error else s),
      source = source_tag\<rparr>"

text \<open>
  The \<^verbatim>\<open>catch\<close> block of \<^verbatim>\<open>part_000\<close>. The subtraction and the addition are
  those of JavaScript's numbers where the line and the column are integers below
  \<open>2 ^ 53\<close> in magnitude; beyond that the program rounds and this definition does not.
\<close>

definition catch_p0 :: "thrown \<Rightarrow> Diagnostic" where
  "catch_p0 error =
     (case error of
        Wenyan w \<Rightarrow>
          \<lparr>severity = Error,
           range_of =
             \<lparr>start_pos = \<lparr>line = or0 (minus1 (err_line w)),
                           character = or0 (minus1 (err_column w))\<rparr>,
              end_pos = \<lparr>line = or0 (minus1 (err_line w)),
                         character = or0 (err_column w) + 1\<rparr>\<rparr>,
           message = err_message w,
           source = source_tag\<rparr>
      | Other m \<Rightarrow> other_diagnostic m)"

definition validateDocument_p0 ::
  "('tok, 'chg) collaborators \<Rightarrow> TextDocument \<Rightarrow> server \<Rightarrow> server" where
  "validateDocument_p0 c document st =
     (let ds = (case try_block c (content document) of
                  Inr _ \<Rightarrow> []
                | Inl error \<Rightarrow> [catch_p0 error])
      in sendDiagnostics \<lparr>puri = uri document, diagnostics = ds\<rparr> st)"

subsection \<open>Recovering the position from the message (\<^verbatim>\<open>part_001\<close>, \<^verbatim>\<open>part_002\<close>)\<close>

text \<open>
  The two patterns are \<^verbatim>\<open>/U+7B2C(\d+)U+884C/\<close> and \<^verbatim>\<open>/U+7B2C(\d+)U+5217/\<close>, the
  characters written here by their code points. \<open>di\<close> is the code unit of
  the ordinal prefix, \<open>hang\<close> the one of the line suffix, \<open>lie\<close> the one of the column suffix;
  \<^verbatim>\<open>\d\<close> is an ASCII digit.
\<close>

definition di :: nat where "di = 31532"
definition hang :: nat where "hang = 34892"
definition lie :: nat where "lie = 21015"

definition isDigit :: "nat \<Rightarrow> bool" where
  "isDigit c \<longleftrightarrow> 48 \<le> c \<and> c \<le> 57"

text \<open>
  \<^verbatim>\<open>message.match(/U+7B2C(\d+)u/)\<close>, reduced to what the server reads of the result: \<open>None\<close>
  for \<^verbatim>\<open>null\<close>, otherwise the first capture group. The expression has no \<^verbatim>\<open>g\<close> flag, so
  the match is the leftmost one; at a start position the greedy \<^verbatim>\<open>\d+\<close> takes the whole
  run of digits, and giving digits back cannot help because the suffix is not a digit.
\<close>

fun match_marker :: "nat \<Rightarrow> jsstring \<Rightarrow> jsstring option" where
  "match_marker u [] = None"
| "match_marker u (c # cs) =
     (if c = di \<and> takeWhile isDigit cs \<noteq> [] \<and>
         (case dropWhile isDigit cs of [] \<Rightarrow> False | x # _ \<Rightarrow> x = u)
      then Some (takeWhile isDigit cs)
      else match_marker u cs)"

text \<open>
  \<^verbatim>\<open>parseInt\<close> on a non-empty string of ASCII digits: its decimal value. (A JavaScript
  number holds it exactly below \<open>2 ^ 53\<close>.)
\<close>

definition parseInt :: "jsstring \<Rightarrow> int" where
  "parseInt ds = foldl (\<lambda>n c. 10 * n + (int c - 48)) 0 ds"

definition marker_pos :: "nat \<Rightarrow> jsstring \<Rightarrow> int" where
  "marker_pos u m = (case match_marker u m of Some ds \<Rightarrow> parseInt ds - 1 | None \<Rightarrow> 0)"

text \<open>
  What it means for a message to hold a marker: the message is \<open>pre\<close>, the ordinal
  prefix, the non-empty digit string \<open>ds\<close>, the suffix \<open>u\<close>, and \<open>post\<close>. The lemmas of
  section \<open>The position markers\<close> relate \<open>match_marker\<close> to it.
\<close>

definition marker_at :: "nat \<Rightarrow> jsstring \<Rightarrow> jsstring \<Rightarrow> jsstring \<Rightarrow> jsstring \<Rightarrow> bool" where
  "marker_at u m pre ds post \<longleftrightarrow>
     m = pre @ di # ds @ u # post \<and> ds \<noteq> [] \<and> list_all isDigit ds"

text \<open>The \<^verbatim>\<open>catch\<close> block of \<^verbatim>\<open>part_001\<close> and \<^verbatim>\<open>part_002\<close>.\<close>

definition catch_p1 :: "thrown \<Rightarrow> Diagnostic" where
  "catch_p1 error =
     (case error of
        Wenyan w \<Rightarrow>
          (let line = marker_pos hang (err_message w);
               column = marker_pos lie (err_message w)
           in \<lparr>severity = Error,
               range_of =
                 \<lparr>start_pos = \<lparr>line = line, character = column\<rparr>,
                  end_pos = \<lparr>line = line, character = column + 1\<rparr>\<rparr>,
               message = err_message w,
               source = source_tag\<rparr>)
      | Other m \<Rightarrow> other_diagnostic m)"

definition validateDocument_p1 ::
  "('tok, 'chg) collaborators \<Rightarrow> TextDocument \<Rightarrow> server \<Rightarrow> server" where
  "validateDocument_p1 c document st =
     (let ds = (case try_block c (content document) of
                  Inr _ \<Rightarrow> []
                | Inl error \<Rightarrow> [catch_p1 error])
      in sendDiagnostics \<lparr>puri = uri document, diagnostics = ds\<rparr> st)"

section \<open>Document lifecycle\<close>

record DidOpenParams =
  open_uri :: jsstring
  open_languageId :: jsstring
  open_version :: int
  open_text :: jsstring

record 'chg DidChangeParams =
  change_uri :: jsstring
  contentChanges :: 'chg
  change_version :: int

definition create :: "jsstring \<Rightarrow> jsstring \<Rightarrow> int \<Rightarrow> jsstring \<Rightarrow> TextDocument" where
  "create u l v t = \<lparr>uri = u, languageId = l, version = v, content = t\<rparr>"

definition onDidOpenTextDocument_p0 ::
  "('tok, 'chg) collaborators \<Rightarrow> DidOpenParams \<Rightarrow> server \<Rightarrow> server" where
  "onDidOpenTextDocument_p0 c params st =
     (let document = create (open_uri params) (open_languageId params)
                            (open_version params) (open_text params)
      in validateDocument_p0 c document
           (st\<lparr>documents := (documents st)(uri document \<mapsto> document)\<rparr>))"

definition onDidOpenTextDocument_p1 ::
  "('tok, 'chg) collaborators \<Rightarrow> DidOpenParams \<Rightarrow> server \<Rightarrow> server" where
  "onDidOpenTextDocument_p1 c params st =
     (let document = create (open_uri params) (open_languageId params)
                            (open_version params) (open_text params)
      in validateDocument_p1 c document
           (st\<lparr>documents := (documents st)(uri document \<mapsto> document)\<rparr>))"

definition onDidChangeTextDocument_p0 ::
  "('tok, 'chg) collaborators \<Rightarrow> 'chg DidChangeParams \<Rightarrow> server \<Rightarrow> server" where
  "onDidChangeTextDocument_p0 c params st =
     (case documents st (change_uri params) of
        Some document \<Rightarrow>
          (let newDocument = update c document (contentChanges params) (change_version params)
           in validateDocument_p0 c newDocument
                (st\<lparr>documents := (documents st)(change_uri params \<mapsto> newDocument)\<rparr>))
      | None \<Rightarrow> st)"

definition onDidChangeTextDocument_p1 ::
  "('tok, 'chg) collaborators \<Rightarrow> 'chg DidChangeParams \<Rightarrow> server \<Rightarrow> server" where
  "onDidChangeTextDocument_p1 c params st =
     (case documents st (change_uri params) of
        Some document \<Rightarrow>
          (let newDocument = update c document (contentChanges params) (change_version params)
           in validateDocument_p1 c newDocument
                (st\<lparr>documents := (documents st)(change_uri params \<mapsto> newDocument)\<rparr>))
      | None \<Rightarrow> st)"

text \<open>The close handler is the same text in every copy.\<close>

definition onDidCloseTextDocument :: "jsstring \<Rightarrow> server \<Rightarrow> server" where
  "onDidCloseTextDocument close_uri st =
     sendDiagnostics \<lparr>puri = close_uri, diagnostics = []\<rparr>
       (st\<lparr>documents := (documents st)(close_uri := None)\<rparr>)"

section \<open>Requests\<close>

text \<open>
  A request handler returns its response together with the server state, so that what it
  does to the state can be stated.
\<close>

record TextDocumentPositionParams =
  td_uri :: jsstring
  position :: Position

text \<open>
  \<^verbatim>\<open>String.prototype.trim\<close> removes the white space and line terminators of ECMAScript
  from both ends.
\<close>

definition isWhite :: "nat \<Rightarrow> bool" where
  "isWhite c \<longleftrightarrow>
     c \<in> set [9, 10, 11, 12, 13, 32, 160, 5760, 8232, 8233, 8239, 8287, 12288, 65279]
     \<or> (8192 \<le> c \<and> c \<le> 8202)"

definition trim :: "jsstring \<Rightarrow> jsstring" where
  "trim s = rev (dropWhile isWhite (rev (dropWhile isWhite s)))"

definition startsWith :: "jsstring \<Rightarrow> jsstring \<Rightarrow> bool" where
  "startsWith s p \<longleftrightarrow> take (length p) s = p"

text \<open>The text of the caret's line from its first column to the caret.\<close>

definition line_prefix ::
  "('tok, 'chg) collaborators \<Rightarrow> TextDocument \<Rightarrow> Position \<Rightarrow> jsstring" where
  "line_prefix c document pos =
     getText c document
       \<lparr>start_pos = \<lparr>line = line pos, character = 0\<rparr>,
        end_pos = \<lparr>line = line pos, character = character pos\<rparr>\<rparr>"

subsection \<open>Completion in \<^verbatim>\<open>part_000\<close>\<close>

record CompletionItem_p0 =
  label_p0 :: jsstring
  kind_p0 :: int
  insertText :: jsstring
  insertTextFormat :: int

definition keywords_p0 :: "jsstring list" where
  "keywords_p0 =
     [
      [22827],
      [19988],
      [25110],
      [33509],
      [21542, 21017],
      [20026, 26159],
      [24490, 29615],
      [22797, 34892],
      [27490],
      [36820],
      [27880, 65306]
     ]"

definition onCompletion_p0 ::
  "('tok, 'chg) collaborators \<Rightarrow> TextDocumentPositionParams \<Rightarrow> server
     \<Rightarrow> CompletionItem_p0 list \<times> server" where
  "onCompletion_p0 c params st =
     (case documents st (td_uri params) of
        None \<Rightarrow> ([], st)
      | Some document \<Rightarrow>
          (let line = line_prefix c document (position params)
           in (map (\<lambda>kw. \<lparr>label_p0 = kw, kind_p0 = 13, insertText = kw, insertTextFormat = 1\<rparr>)
                 (filter (\<lambda>kw. startsWith kw (trim line)) keywords_p0),
               st)))"

subsection \<open>Completion, definition and hover in \<^verbatim>\<open>part_001\<close> and \<^verbatim>\<open>part_002\<close>\<close>

datatype CompletionItemKind = Keyword | Operator

record CompletionItem =
  label :: jsstring
  kind :: CompletionItemKind
  detail :: jsstring
  documentation :: jsstring

definition keywords_p1 :: "CompletionItem list" where
  "keywords_p1 =
     [
      \<lparr>label = [28085, 20041], kind = Keyword,
       detail = [20989, 25968, 23450, 20041],
       documentation = [23450, 20041, 20989, 25968]\<rparr>,
      \<lparr>label = [38656, 30693], kind = Keyword,
       detail = [21442, 25968, 23450, 20041],
       documentation = [22768, 26126, 20989, 25968, 21442, 25968]\<rparr>,
      \<lparr>label = [27714], kind = Keyword,
       detail = [36820, 22238, 35821, 21477],
       documentation = [20989, 25968, 36820, 22238, 20540]\<rparr>,
      \<lparr>label = [24050, 30693], kind = Keyword,
       detail = [20989, 25968, 35843, 29992, 21442, 25968],
       documentation = [35843, 29992, 20989, 25968, 26102, 25552, 20379, 30340, 21442, 25968, 65292, 23545, 24212, 20989, 25968, 23450, 20041, 20013, 30340, 38656, 30693]\<rparr>,
      \<lparr>label = [20026], kind = Keyword,
       detail = [20316, 20026],
       documentation = [25351, 23450, 29992, 36884, 25110, 31867, 22411]\<rparr>,
      \<lparr>label = [20196], kind = Keyword,
       detail = [21464, 37327, 22768, 26126],
       documentation = [22768, 26126, 21464, 37327]\<rparr>,
      \<lparr>label = [20504, 33509], kind = Keyword,
       detail = [26465, 20214, 21028, 26029],
       documentation = [26465, 20214, 21028, 26029, 30340, 24320, 22987]\<rparr>,
      \<lparr>label = [20877, 33509], kind = Keyword,
       detail = [21542, 21017, 22914, 26524],
       documentation = [26465, 20214, 21028, 26029, 30340, 20998, 25903]\<rparr>,
      \<lparr>label = [20877, 21017], kind = Keyword,
       detail = [21542, 21017, 22914, 26524],
       documentation = [26465, 20214, 21028, 26029, 30340, 20998, 25903]\<rparr>,
      \<lparr>label = [21542, 21017], kind = Keyword,
       detail = [21542, 21017],
       documentation = [26465, 20214, 21028, 26029, 30340, 40664, 35748, 20998, 25903]\<rparr>,
      \<lparr>label = [24403], kind = Keyword,
       detail = [24403, 26465, 20214],
       documentation = [26465, 20214, 35302, 21457]\<rparr>,
      \<lparr>label = [26102, 22797, 34892], kind = Keyword,
       detail = [24403, 24490, 29615],
       documentation = [24403, 26465, 20214, 28385, 36275, 26102, 24490, 29615]\<rparr>,
      \<lparr>label = [22797, 34892], kind = Keyword,
       detail = [37325, 22797, 25191, 34892],
       documentation = [37325, 22797, 25191, 34892, 20195, 30721, 22359]\<rparr>,
      \<lparr>label = [27425], kind = Keyword,
       detail = [27425, 25968],
       documentation = [25351, 23450, 24490, 29615, 27425, 25968]\<rparr>,
      \<lparr>label = [20197], kind = Keyword,
       detail = [20351, 29992],
       documentation = [20351, 29992, 21464, 37327, 25110, 20540]\<rparr>,
      \<lparr>label = [26159], kind = Operator,
       detail = [31561, 20110],
       documentation = [30456, 31561, 27604, 36739, 36816, 31639, 31526]\<rparr>,
      \<lparr>label = [19981, 26159], kind = Operator,
       detail = [19981, 31561, 20110],
       documentation = [19981, 31561, 27604, 36739, 36816, 31639, 31526]\<rparr>,
      \<lparr>label = [32988, 20110], kind = Operator,
       detail = [22823, 20110, 31561, 20110],
       documentation = [22823, 20110, 31561, 20110, 27604, 36739, 36816, 31639, 31526]\<rparr>,
      \<lparr>label = [19981, 21450], kind = Operator,
       detail = [23567, 20110, 31561, 20110],
       documentation = [23567, 20110, 31561, 20110, 27604, 36739, 36816, 31639, 31526]\<rparr>,
      \<lparr>label = [19988], kind = Operator,
       detail = [36923, 36753, 19982],
       documentation = [36923, 36753, 19982, 36816, 31639, 31526]\<rparr>,
      \<lparr>label = [24182, 19988], kind = Operator,
       detail = [36923, 36753, 19982],
       documentation = [36923, 36753, 19982, 36816, 31639, 31526, 65288, 23436, 25972, 29256, 65289]\<rparr>,
      \<lparr>label = [25110], kind = Operator,
       detail = [36923, 36753, 25110],
       documentation = [36923, 36753, 25110, 36816, 31639, 31526]\<rparr>,
      \<lparr>label = [25110, 32773], kind = Operator,
       detail = [36923, 36753, 25110],
       documentation = [36923, 36753, 25110, 36816, 31639, 31526, 65288, 23436, 25972, 29256, 65289]\<rparr>
     ]"

definition onCompletion_p1 ::
  "('tok, 'chg) collaborators \<Rightarrow> TextDocumentPositionParams \<Rightarrow> server
     \<Rightarrow> CompletionItem list \<times> server" where
  "onCompletion_p1 c params st =
     (case documents st (td_uri params) of
        None \<Rightarrow> ([], st)
      | Some document \<Rightarrow>
          (let line = line_prefix c document (position params);
               filteredKeywords =
                 filter (\<lambda>keyword. trim line = [] \<or> startsWith (label keyword) (trim line))
                   keywords_p1
           in (filteredKeywords, st)))"

definition onCompletionResolve :: "'item \<Rightarrow> server \<Rightarrow> 'item \<times> server" where
  "onCompletionResolve item st = (item, st)"

record Location =
  loc_uri :: jsstring
  loc_range :: Range

definition onDefinition ::
  "TextDocumentPositionParams \<Rightarrow> server \<Rightarrow> Location option \<times> server" where
  "onDefinition params st =
     (case documents st (td_uri params) of
        None \<Rightarrow> (None, st)
      | Some document \<Rightarrow>
          (Some \<lparr>loc_uri = td_uri params,
                 loc_range =
                   \<lparr>start_pos = \<lparr>line = line (position params), character = 0\<rparr>,
                    end_pos = \<lparr>line = line (position params), character = 10\<rparr>\<rparr>\<rparr>,
           st))"

record Hover =
  markup_kind :: jsstring
  markup_value :: jsstring

definition markdown :: jsstring where
  "markdown = [109, 97, 114, 107, 100, 111, 119, 110]"

definition hover_heading :: jsstring where
  "hover_heading = [42, 42, 24403, 21069, 34892, 20869, 23481, 42, 42, 10, 10]"

definition onHover ::
  "('tok, 'chg) collaborators \<Rightarrow> TextDocumentPositionParams \<Rightarrow> server
     \<Rightarrow> Hover option \<times> server" where
  "onHover c params st =
     (case documents st (td_uri params) of
        None \<Rightarrow> (None, st)
      | Some document \<Rightarrow>
          (let line = getText c document
                        \<lparr>start_pos = \<lparr>line = line (position params), character = 0\<rparr>,
                         end_pos = \<lparr>line = line (position params) + 1, character = 0\<rparr>\<rparr>
           in (Some \<lparr>markup_kind = markdown, markup_value = hover_heading @ trim line\<rparr>, st)))"

section \<open>Fixtures of the scenarios\<close>

text \<open>
  Collaborators for concrete runs: an engine whose lexer throws a given value, an engine
  that accepts every text, and a text-document library for documents of one line (a
  position on a later line is the end of the document).
\<close>

definition offsetAt :: "TextDocument \<Rightarrow> Position \<Rightarrow> nat" where
  "offsetAt d pos =
     (if line pos \<le> 0 then min (nat (character pos)) (length (content d))
      else length (content d))"

definition getText_one_line :: "TextDocument \<Rightarrow> Range \<Rightarrow> jsstring" where
  "getText_one_line d r =
     drop (offsetAt d (start_pos r)) (take (offsetAt d (end_pos r)) (content d))"

definition throwing :: "thrown \<Rightarrow> (unit, unit) collaborators" where
  "throwing e =
     \<lparr>tokenize = (\<lambda>_. Inl e), parse = (\<lambda>_. Inr ()),
      update = (\<lambda>d _ _. d), getText = getText_one_line\<rparr>"

definition accepting :: "(unit, unit) collaborators" where
  "accepting =
     \<lparr>tokenize = (\<lambda>_. Inr ()), parse = (\<lambda>_. Inr ()),
      update = (\<lambda>d _ _. d), getText = getText_one_line\<rparr>"

definition no_documents :: server where
  "no_documents = \<lparr>documents = Map.empty, sent = []\<rparr>"

text \<open>The document \<^verbatim>\<open>d1\<close> with the text \<^verbatim>\<open>bad syntax (\<close>, and the message \<^verbatim>\<open>unexpected end\<close>.\<close>

definition d1 :: jsstring where
  "d1 = [100, 49]"

definition bad_syntax :: TextDocument where
  "bad_syntax = create d1 [] 1 [98, 97, 100, 32, 115, 121, 110, 116, 97, 120, 32, 40]"

definition unexpected_end :: jsstring where
  "unexpected_end = [117, 110, 101, 120, 112, 101, 99, 116, 101, 100, 32, 101, 110, 100]"

text \<open>
  A message with the markers of line 3 and column 5 (a full-width comma between them),
  and one with the markers of line 0 and column 0.
\<close>

definition line3_column5 :: jsstring where
  "line3_column5 = [di, 51, hang, 65292, di, 53, lie]"

definition line0_column0 :: jsstring where
  "line0_column0 = [di, 48, hang, di, 48, lie]"

text \<open>
  A server with one open document, whose text is a space, the first character of two
  labels of the table, and the letter x; and a request with the caret on its line.
\<close>

definition zai_x :: TextDocument where
  "zai_x = create d1 [] 1 [32, 20877, 120]"

definition one_open :: server where
  "one_open = \<lparr>documents = [d1 \<mapsto> zai_x], sent = []\<rparr>"

definition caret :: "int \<Rightarrow> TextDocumentPositionParams" where
  "caret n = \<lparr>td_uri = d1, position = \<lparr>line = 0, character = n\<rparr>\<rparr>"

section \<open>Properties of a published range\<close>

text \<open>The range of one character at the start of the document.\<close>

definition origin :: Range where
  "origin = \<lparr>start_pos = \<lparr>line = 0, character = 0\<rparr>, end_pos = \<lparr>line = 0, character = 1\<rparr>\<rparr>"

definition nonnegative :: "Range \<Rightarrow> bool" where
  "nonnegative r \<longleftrightarrow>
     0 \<le> line (start_pos r) \<and> 0 \<le> character (start_pos r) \<and>
     0 \<le> line (end_pos r) \<and> 0 \<le> character (end_pos r)"

section \<open>The position markers\<close>

lemma digits_run:
  assumes "list_all isDigit ds" "\<not> isDigit u"
  shows "takeWhile isDigit (ds @ u # post) = ds"
    and "dropWhile isDigit (ds @ u # post) = u # post"
  using assms by (simp_all add: list_all_iff takeWhile_append2 dropWhile_append2)

lemma match_marker_head:
  assumes "marker_at u m [] ds post" "\<not> isDigit u"
  shows "match_marker u m = Some ds"
  using assms by (simp add: marker_at_def digits_run)

lemma head_match_marker:
  assumes "takeWhile isDigit cs \<noteq> []" "dropWhile isDigit cs = u # rest"
  shows "marker_at u (di # cs) [] (takeWhile isDigit cs) rest"
proof -
  have "cs = takeWhile isDigit cs @ dropWhile isDigit cs" by simp
  then have "di # cs = [] @ di # takeWhile isDigit cs @ u # rest"
    using assms(2) by simp
  moreover have "list_all isDigit (takeWhile isDigit cs)"
    by (simp add: list_all_iff) (meson set_takeWhileD)
  ultimately show ?thesis using assms(1) unfolding marker_at_def by blast
qed

lemma marker_at_Cons:
  "marker_at u cs p d q \<Longrightarrow> marker_at u (c # cs) (c # p) d q"
  by (simp add: marker_at_def)

text \<open>Where no marker starts at the head of the message, the search moves on.\<close>

lemma match_marker_step:
  assumes "\<not> (\<exists>d q. marker_at u (c # cs) [] d q)"
  shows "match_marker u (c # cs) = match_marker u cs"
proof (cases "c = di \<and> takeWhile isDigit cs \<noteq> [] \<and>
              (case dropWhile isDigit cs of [] \<Rightarrow> False | x # _ \<Rightarrow> x = u)")
  case True
  then obtain rest where "dropWhile isDigit cs = u # rest"
    by (auto split: list.splits)
  with True have "marker_at u (c # cs) [] (takeWhile isDigit cs) rest"
    using head_match_marker by blast
  with assms show ?thesis by blast
next
  case False
  then show ?thesis by auto
qed

text \<open>The match is the leftmost marker of the message.\<close>

lemma match_marker_first:
  assumes "marker_at u m pre ds post"
    and "\<forall>p d q. marker_at u m p d q \<longrightarrow> length pre \<le> length p"
    and "\<not> isDigit u"
  shows "match_marker u m = Some ds"
  using assms
proof (induction pre arbitrary: m)
  case Nil
  then show ?case by (simp add: match_marker_head)
next
  case (Cons c pre)
  from Cons.prems(1) obtain m' where m: "m = c # m'" and m': "marker_at u m' pre ds post"
    by (auto simp: marker_at_def)
  have nohead: "\<not> (\<exists>d q. marker_at u (c # m') [] d q)"
    using Cons.prems(2) m by fastforce
  have first': "\<forall>p d q. marker_at u m' p d q \<longrightarrow> length pre \<le> length p"
  proof (intro allI impI)
    fix p d q assume "marker_at u m' p d q"
    then have "marker_at u m (c # p) d q" using m by (simp add: marker_at_Cons)
    with Cons.prems(2) show "length pre \<le> length p" by fastforce
  qed
  have "match_marker u m = match_marker u m'"
    using nohead m match_marker_step by blast
  also have "\<dots> = Some ds"
    using Cons.IH [OF m' first' Cons.prems(3)] .
  finally show ?case .
qed

text \<open>The match fails exactly on the messages that hold no marker.\<close>

lemma match_marker_None_iff:
  assumes "\<not> isDigit u"
  shows "match_marker u m = None \<longleftrightarrow> \<not> (\<exists>pre ds post. marker_at u m pre ds post)"
proof (induction m)
  case Nil
  then show ?case by (simp add: marker_at_def)
next
  case (Cons c cs)
  show ?case
  proof (cases "\<exists>d q. marker_at u (c # cs) [] d q")
    case True
    then obtain d q where dq: "marker_at u (c # cs) [] d q" by blast
    then have "match_marker u (c # cs) = Some d"
      using assms match_marker_head by blast
    with dq show ?thesis by auto
  next
    case False
    then have step: "match_marker u (c # cs) = match_marker u cs"
      by (rule match_marker_step)
    have "(\<exists>pre ds post. marker_at u (c # cs) pre ds post) \<longleftrightarrow>
          (\<exists>pre ds post. marker_at u cs pre ds post)"
    proof
      assume "\<exists>pre ds post. marker_at u (c # cs) pre ds post"
      then obtain p d q where "marker_at u (c # cs) p d q" by blast
      then show "\<exists>pre ds post. marker_at u cs pre ds post"
        using False by (cases p) (auto simp: marker_at_def)
    next
      assume "\<exists>pre ds post. marker_at u cs pre ds post"
      then show "\<exists>pre ds post. marker_at u (c # cs) pre ds post"
        using marker_at_Cons by blast
    qed
    with step Cons.IH show ?thesis by simp
  qed
qed

lemma not_digit_hang: "\<not> isDigit hang"
  by (simp add: isDigit_def hang_def)

lemma not_digit_lie: "\<not> isDigit lie"
  by (simp add: isDigit_def lie_def)

lemma not_digit_di: "\<not> isDigit di"
  by (simp add: isDigit_def di_def)

text \<open>What the match returns is a marker of the message.\<close>

lemma match_marker_Some_marker:
  "match_marker u m = Some ds \<Longrightarrow> \<exists>pre post. marker_at u m pre ds post"
proof (induction m)
  case Nil
  then show ?case by simp
next
  case (Cons c cs)
  show ?case
  proof (cases "c = di \<and> takeWhile isDigit cs \<noteq> [] \<and>
              (case dropWhile isDigit cs of [] \<Rightarrow> False | x # _ \<Rightarrow> x = u)")
    case True
    then obtain rest where r: "dropWhile isDigit cs = u # rest"
      by (auto split: list.splits)
    from True Cons.prems have "ds = takeWhile isDigit cs" by auto
    with True r show ?thesis using head_match_marker by blast
  next
    case False
    with Cons.prems have "match_marker u cs = Some ds" by auto
    then show ?thesis using Cons.IH marker_at_Cons by blast
  qed
qed

text \<open>
  A marker that starts before an ordinal prefix ends before it: the prefix is neither a
  digit nor a suffix.
\<close>

lemma marker_before_boundary:
  assumes "marker_at u (pre @ di # rest) p d q"
    and "length p < length pre" and "\<not> isDigit u" and "u \<noteq> di"
  shows "\<exists>q'. marker_at u pre p d q'"
proof -
  from assms(1) have eq: "p @ di # d @ u # q = pre @ di # rest"
    and d: "d \<noteq> []" "list_all isDigit d"
    by (simp_all add: marker_at_def)
  from eq assms(2) obtain s where pre: "pre = p @ di # s" and s: "s @ di # rest = d @ u # q"
    by (auto simp: append_eq_append_conv2 append_eq_Cons_conv Cons_eq_append_conv)
  from s consider t where "s = d @ t" "t @ di # rest = u # q"
    | t where "d = s @ t" "di # rest = t @ u # q"
    by (auto simp: append_eq_append_conv2)
  then show ?thesis
  proof cases
    case 1
    with assms(4) obtain t' where "t = u # t'"
      by (cases t) auto
    with 1 pre d show ?thesis
      by (auto simp: marker_at_def)
  next
    case 2
    with assms(4) have "di \<in> set d"
      by (cases t) auto
    with d(2) not_digit_di show ?thesis
      by (simp add: list_all_iff)
  qed
qed

lemma first_markerI:
  assumes "match_marker u pre = None" and "\<not> isDigit u" and "u \<noteq> di"
  shows "\<forall>p d q. marker_at u (pre @ di # rest) p d q \<longrightarrow> length pre \<le> length p"
proof (intro allI impI)
  fix p d q
  assume a: "marker_at u (pre @ di # rest) p d q"
  show "length pre \<le> length p"
  proof (rule ccontr)
    assume "\<not> length pre \<le> length p"
    then have "\<exists>q'. marker_at u pre p d q'"
      using a assms(2,3) marker_before_boundary by simp
    with assms(1,2) show False
      using match_marker_None_iff by blast
  qed
qed

lemma unexpected_end_no_marker:
  assumes "\<not> isDigit u"
  shows "\<not> (\<exists>pre ds post. marker_at u unexpected_end pre ds post)"
proof -
  have "match_marker u unexpected_end = None"
    by (simp add: unexpected_end_def di_def)
  then show ?thesis using match_marker_None_iff [OF assms] by blast
qed

section \<open>What validateDocument publishes\<close>

lemma validateDocument_p0_sent:
  "validateDocument_p0 c d st =
     st\<lparr>sent := sent st @ [\<lparr>puri = uri d, diagnostics =
        (case try_block c (content d) of Inr _ \<Rightarrow> [] | Inl e \<Rightarrow> [catch_p0 e])\<rparr>]\<rparr>"
  by (simp add: validateDocument_p0_def sendDiagnostics_def)

lemma validateDocument_p1_sent:
  "validateDocument_p1 c d st =
     st\<lparr>sent := sent st @ [\<lparr>puri = uri d, diagnostics =
        (case try_block c (content d) of Inr _ \<Rightarrow> [] | Inl e \<Rightarrow> [catch_p1 e])\<rparr>]\<rparr>"
  by (simp add: validateDocument_p1_def sendDiagnostics_def)

lemma validateDocument_p0_throws:
  "try_block c (content d) = Inl e \<Longrightarrow>
   validateDocument_p0 c d st =
     st\<lparr>sent := sent st @ [\<lparr>puri = uri d, diagnostics = [catch_p0 e]\<rparr>]\<rparr>"
  by (simp add: validateDocument_p0_sent)

lemma validateDocument_p1_throws:
  "try_block c (content d) = Inl e \<Longrightarrow>
   validateDocument_p1 c d st =
     st\<lparr>sent := sent st @ [\<lparr>puri = uri d, diagnostics = [catch_p1 e]\<rparr>]\<rparr>"
  by (simp add: validateDocument_p1_sent)

lemma or0_Some: "or0 (Some n) = n"
  by (simp add: or0_def)

lemma or0_None: "or0 None = 0"
  by (simp add: or0_def)

lemma try_block_throwing: "try_block (throwing e) t = Inl e"
  by (simp add: try_block_def throwing_def)

lemma try_block_accepting: "try_block accepting t = Inr ()"
  by (simp add: try_block_def accepting_def)

text \<open>
  Claim C5. When the tokenize stage and the parse stage both succeed on the text of a
  document, validateDocument publishes one notification for the document's identifier,
  with the empty list of diagnostics, and changes nothing else. This holds in every copy
  of the server.
\<close>

theorem success_publishes_empty:
  assumes "tokenize c (content document) = Inr tokens"
    and "parse c tokens = Inr ()"
  shows "validateDocument_p0 c document st =
           st\<lparr>sent := sent st @ [\<lparr>puri = uri document, diagnostics = []\<rparr>]\<rparr>
       \<and> validateDocument_p1 c document st =
           st\<lparr>sent := sent st @ [\<lparr>puri = uri document, diagnostics = []\<rparr>]\<rparr>"
proof -
  have "try_block c (content document) = Inr ()"
    using assms by (simp add: try_block_def)
  then show ?thesis
    by (simp add: validateDocument_p0_sent validateDocument_p1_sent)
qed

theorem success_publishes_empty_witness:
  "tokenize accepting (content bad_syntax) = Inr ()
   \<and> parse accepting () = Inr ()
   \<and> sent (validateDocument_p0 accepting bad_syntax no_documents)
       = [\<lparr>puri = d1, diagnostics = []\<rparr>]
   \<and> sent (validateDocument_p1 accepting bad_syntax no_documents)
       = [\<lparr>puri = d1, diagnostics = []\<rparr>]"
proof -
  have t: "tokenize accepting (content bad_syntax) = Inr ()"
    and p: "parse accepting () = Inr ()"
    by (simp_all add: accepting_def)
  show ?thesis
    using success_publishes_empty [OF t p, of no_documents] t p
    by (simp add: no_documents_def bad_syntax_def create_def)
qed

text \<open>
  Claim C1, as amended. For a structured failure with the explicit line \<open>L\<close> and column
  \<open>C\<close>, both below \<open>2 ^ 53\<close> in magnitude (where the program's arithmetic is exact),
  the copy of the server that reads these fields (\<^verbatim>\<open>part_000\<close>) publishes one
  diagnostic, of severity error and with the failure's message, whose start position is
  \<open>(L - 1, C - 1)\<close> and whose end position is on the line \<open>L - 1\<close>. The copies that scan
  the message (\<^verbatim>\<open>part_001\<close>, \<^verbatim>\<open>part_002\<close>) do not read the fields: they publish the
  diagnostic of the same failure without them.
\<close>

theorem explicit_position_translated:
  assumes "try_block c (content document) = Inl (Wenyan w)"
    and "err_line w = Some L" and "err_column w = Some C"
    and "\<bar>L\<bar> < 2 ^ 53" and "\<bar>C\<bar> < 2 ^ 53"
  shows "validateDocument_p0 c document st =
           st\<lparr>sent := sent st @ [\<lparr>puri = uri document, diagnostics = [catch_p0 (Wenyan w)]\<rparr>]\<rparr>
       \<and> start_pos (range_of (catch_p0 (Wenyan w))) = \<lparr>line = L - 1, character = C - 1\<rparr>
       \<and> line (end_pos (range_of (catch_p0 (Wenyan w)))) = L - 1
       \<and> severity (catch_p0 (Wenyan w)) = Error
       \<and> message (catch_p0 (Wenyan w)) = err_message w
       \<and> validateDocument_p1 c document st =
           st\<lparr>sent := sent st @ [\<lparr>puri = uri document, diagnostics = [catch_p1 (Wenyan w)]\<rparr>]\<rparr>
       \<and> catch_p1 (Wenyan w) = catch_p1 (Wenyan (w\<lparr>err_line := None, err_column := None\<rparr>))"
  using assms
  by (simp add: validateDocument_p0_throws validateDocument_p1_throws catch_p0_def catch_p1_def
      minus1_def or0_Some Let_def)

theorem explicit_position_translated_witness:
  "\<bar>1 :: int\<bar> < 2 ^ 53 \<and> \<bar>13 :: int\<bar> < 2 ^ 53
   \<and> sent (validateDocument_p0
      (throwing (Wenyan \<lparr>err_message = unexpected_end, err_line = Some 1, err_column = Some 13\<rparr>))
      bad_syntax no_documents)
    = [\<lparr>puri = d1, diagnostics =
          [catch_p0 (Wenyan \<lparr>err_message = unexpected_end, err_line = Some 1, err_column = Some 13\<rparr>)]\<rparr>]
   \<and> start_pos (range_of
        (catch_p0 (Wenyan \<lparr>err_message = unexpected_end, err_line = Some 1, err_column = Some 13\<rparr>)))
       = \<lparr>line = 0, character = 12\<rparr>
   \<and> line (end_pos (range_of
        (catch_p0 (Wenyan \<lparr>err_message = unexpected_end, err_line = Some 1, err_column = Some 13\<rparr>))))
       = 0
   \<and> message
        (catch_p0 (Wenyan \<lparr>err_message = unexpected_end, err_line = Some 1, err_column = Some 13\<rparr>))
       = unexpected_end
   \<and> catch_p1 (Wenyan \<lparr>err_message = unexpected_end, err_line = Some 1, err_column = Some 13\<rparr>)
       = catch_p1 (Wenyan \<lparr>err_message = unexpected_end, err_line = None, err_column = None\<rparr>)"
  using explicit_position_translated
    [of "throwing (Wenyan \<lparr>err_message = unexpected_end, err_line = Some 1, err_column = Some 13\<rparr>)"
        bad_syntax "\<lparr>err_message = unexpected_end, err_line = Some 1, err_column = Some 13\<rparr>"
        1 13 no_documents]
  by (simp add: try_block_throwing no_documents_def bad_syntax_def create_def)

text \<open>
  The scenario of the specification: the document \<^verbatim>\<open>d1\<close> is validated and the engine
  throws the structured failure with the message \<^verbatim>\<open>unexpected end\<close>, line 1 and column
  13. \<^verbatim>\<open>part_000\<close> publishes the range from \<open>(0, 12)\<close> to \<open>(0, 14)\<close>, two columns wide,
  and \<^verbatim>\<open>part_001\<close> the range from \<open>(0, 0)\<close> to \<open>(0, 1)\<close>; neither publishes the range from
  \<open>(0, 12)\<close> to \<open>(0, 13)\<close>.
\<close>

theorem explicit_position_end_counterexample:
  "sent (validateDocument_p0
      (throwing (Wenyan \<lparr>err_message = unexpected_end, err_line = Some 1, err_column = Some 13\<rparr>))
      bad_syntax no_documents)
    = [\<lparr>puri = d1, diagnostics =
          [\<lparr>severity = Error,
            range_of = \<lparr>start_pos = \<lparr>line = 0, character = 12\<rparr>,
                        end_pos = \<lparr>line = 0, character = 14\<rparr>\<rparr>,
            message = unexpected_end, source = source_tag\<rparr>]\<rparr>]
   \<and> sent (validateDocument_p1
      (throwing (Wenyan \<lparr>err_message = unexpected_end, err_line = Some 1, err_column = Some 13\<rparr>))
      bad_syntax no_documents)
    = [\<lparr>puri = d1, diagnostics =
          [\<lparr>severity = Error,
            range_of = \<lparr>start_pos = \<lparr>line = 0, character = 0\<rparr>,
                        end_pos = \<lparr>line = 0, character = 1\<rparr>\<rparr>,
            message = unexpected_end, source = source_tag\<rparr>]\<rparr>]
   \<and> sent (validateDocument_p0
      (throwing (Wenyan \<lparr>err_message = unexpected_end, err_line = Some 1, err_column = Some 13\<rparr>))
      bad_syntax no_documents)
    \<noteq> [\<lparr>puri = d1, diagnostics =
          [\<lparr>severity = Error,
            range_of = \<lparr>start_pos = \<lparr>line = 0, character = 12\<rparr>,
                        end_pos = \<lparr>line = 0, character = 13\<rparr>\<rparr>,
            message = unexpected_end, source = source_tag\<rparr>]\<rparr>]
   \<and> sent (validateDocument_p1
      (throwing (Wenyan \<lparr>err_message = unexpected_end, err_line = Some 1, err_column = Some 13\<rparr>))
      bad_syntax no_documents)
    \<noteq> [\<lparr>puri = d1, diagnostics =
          [\<lparr>severity = Error,
            range_of = \<lparr>start_pos = \<lparr>line = 0, character = 12\<rparr>,
                        end_pos = \<lparr>line = 0, character = 13\<rparr>\<rparr>,
            message = unexpected_end, source = source_tag\<rparr>]\<rparr>]"
  by (simp add: validateDocument_p0_sent validateDocument_p1_sent try_block_throwing
      catch_p0_def catch_p1_def minus1_def or0_def marker_pos_def unexpected_end_def
      di_def no_documents_def bad_syntax_def create_def)

text \<open>
  Claim C2. In \<^verbatim>\<open>part_001\<close> and \<^verbatim>\<open>part_002\<close>, for a structured failure whose message holds
  a line marker and a column marker, the published diagnostic starts at the position the
  first marker of each kind gives, converted to 0-based: the line is the number of the
  line marker less one, the column the number of the column marker less one. The first
  marker is the one no other marker starts before. The numbers are taken below
  \<open>2 ^ 53\<close>, where \<^verbatim>\<open>parseInt\<close> is exact.
\<close>

theorem marker_position_recovered:
  assumes "try_block c (content document) = Inl (Wenyan w)"
    and "marker_at hang (err_message w) pre ds post"
    and "\<forall>p d q. marker_at hang (err_message w) p d q \<longrightarrow> length pre \<le> length p"
    and "marker_at lie (err_message w) pre' ds' post'"
    and "\<forall>p d q. marker_at lie (err_message w) p d q \<longrightarrow> length pre' \<le> length p"
    and "parseInt ds < 2 ^ 53" and "parseInt ds' < 2 ^ 53"
  shows "validateDocument_p1 c document st =
           st\<lparr>sent := sent st @ [\<lparr>puri = uri document, diagnostics = [catch_p1 (Wenyan w)]\<rparr>]\<rparr>
       \<and> start_pos (range_of (catch_p1 (Wenyan w))) =
           \<lparr>line = parseInt ds - 1, character = parseInt ds' - 1\<rparr>"
proof -
  have "match_marker hang (err_message w) = Some ds"
    using assms(2,3) not_digit_hang by (rule match_marker_first)
  moreover have "match_marker lie (err_message w) = Some ds'"
    using assms(4,5) not_digit_lie by (rule match_marker_first)
  ultimately show ?thesis
    using assms(1)
    by (simp add: validateDocument_p1_throws catch_p1_def marker_pos_def Let_def)
qed

theorem marker_position_recovered_witness:
  "marker_at hang line3_column5 [] [51] [65292, di, 53, lie]
   \<and> marker_at lie line3_column5 [di, 51, hang, 65292] [53] []
   \<and> parseInt [51] = 3 \<and> parseInt [53] = 5
   \<and> sent (validateDocument_p1
        (throwing (Wenyan \<lparr>err_message = line3_column5, err_line = None, err_column = None\<rparr>))
        bad_syntax no_documents)
      = [\<lparr>puri = d1, diagnostics =
           [\<lparr>severity = Error,
             range_of = \<lparr>start_pos = \<lparr>line = 2, character = 4\<rparr>,
                         end_pos = \<lparr>line = 2, character = 5\<rparr>\<rparr>,
             message = line3_column5, source = source_tag\<rparr>]\<rparr>]"
proof -
  let ?w = "\<lparr>err_message = line3_column5, err_line = None, err_column = None\<rparr>"
  have t: "try_block (throwing (Wenyan ?w)) (content bad_syntax) = Inl (Wenyan ?w)"
    by (rule try_block_throwing)
  have lm: "marker_at hang (err_message ?w) [] [51] [65292, di, 53, lie]"
    and cm: "marker_at lie (err_message ?w) [di, 51, hang, 65292] [53] []"
    by (simp_all add: marker_at_def line3_column5_def isDigit_def)
  have lf: "\<forall>p d q. marker_at hang (err_message ?w) p d q
              \<longrightarrow> length ([] :: nat list) \<le> length p"
    by simp
  have "match_marker lie [di, 51, hang, 65292] = None"
    by (simp add: isDigit_def hang_def lie_def)
  then have cf: "\<forall>p d q. marker_at lie (err_message ?w) p d q
                   \<longrightarrow> length [di, 51, hang, 65292] \<le> length p"
    using first_markerI [of lie "[di, 51, hang, 65292]" "[53, lie]"] not_digit_lie
    by (simp add: line3_column5_def lie_def di_def)
  have n: "parseInt [51] = 3" "parseInt [53] = 5"
    by (simp_all add: parseInt_def)
  then have v: "parseInt [51] < 2 ^ 53" "parseInt [53] < 2 ^ 53"
    by simp_all
  have r: "catch_p1 (Wenyan ?w) =
      \<lparr>severity = Error,
       range_of = \<lparr>start_pos = \<lparr>line = 2, character = 4\<rparr>,
                   end_pos = \<lparr>line = 2, character = 5\<rparr>\<rparr>,
       message = line3_column5, source = source_tag\<rparr>"
    using marker_position_recovered [OF t lm lf cm cf v, of no_documents] n
    by (simp add: catch_p1_def Let_def)
  show ?thesis
    using marker_position_recovered [OF t lm lf cm cf v, of no_documents] lm cm r n
    by (simp add: no_documents_def bad_syntax_def create_def)
qed

text \<open>
  Claim C3. For a failure with neither explicit position fields nor a line or column
  marker in its message (and for every failure that is not a structured one), every copy
  of the server publishes one diagnostic, whose range starts at \<open>(0, 0)\<close> and ends at
  \<open>(0, 1)\<close>: one character wide.
\<close>

theorem no_position_defaults_to_origin:
  assumes "try_block c (content document) = Inl error"
    and "case error of
           Wenyan w \<Rightarrow>
             err_line w = None \<and> err_column w = None
             \<and> \<not> (\<exists>pre ds post. marker_at hang (err_message w) pre ds post)
             \<and> \<not> (\<exists>pre ds post. marker_at lie (err_message w) pre ds post)
         | Other m \<Rightarrow> True"
  shows "validateDocument_p0 c document st =
           st\<lparr>sent := sent st @ [\<lparr>puri = uri document, diagnostics = [catch_p0 error]\<rparr>]\<rparr>
       \<and> range_of (catch_p0 error) = origin
       \<and> validateDocument_p1 c document st =
           st\<lparr>sent := sent st @ [\<lparr>puri = uri document, diagnostics = [catch_p1 error]\<rparr>]\<rparr>
       \<and> range_of (catch_p1 error) = origin"
proof (cases error)
  case (Wenyan w)
  with assms(2) have f: "err_line w = None" "err_column w = None"
    and "\<not> (\<exists>pre ds post. marker_at hang (err_message w) pre ds post)"
    and "\<not> (\<exists>pre ds post. marker_at lie (err_message w) pre ds post)"
    by simp_all
  then have m: "match_marker hang (err_message w) = None"
    "match_marker lie (err_message w) = None"
    using match_marker_None_iff not_digit_hang not_digit_lie by blast+
  show ?thesis
    using assms(1) Wenyan f m
    by (simp add: validateDocument_p0_throws validateDocument_p1_throws catch_p0_def catch_p1_def
        minus1_def or0_None marker_pos_def origin_def)
next
  case (Other m)
  then show ?thesis
    using assms(1)
    by (simp add: validateDocument_p0_throws validateDocument_p1_throws catch_p0_def catch_p1_def
        other_diagnostic_def origin_def)
qed

theorem no_position_defaults_to_origin_witness:
  "\<not> (\<exists>pre ds post. marker_at hang unexpected_end pre ds post)
   \<and> \<not> (\<exists>pre ds post. marker_at lie unexpected_end pre ds post)
   \<and> sent (validateDocument_p0
        (throwing (Wenyan \<lparr>err_message = unexpected_end, err_line = None, err_column = None\<rparr>))
        bad_syntax no_documents)
      = [\<lparr>puri = d1, diagnostics =
           [\<lparr>severity = Error, range_of = origin, message = unexpected_end,
             source = source_tag\<rparr>]\<rparr>]
   \<and> sent (validateDocument_p1
        (throwing (Wenyan \<lparr>err_message = unexpected_end, err_line = None, err_column = None\<rparr>))
        bad_syntax no_documents)
      = [\<lparr>puri = d1, diagnostics =
           [\<lparr>severity = Error, range_of = origin, message = unexpected_end,
             source = source_tag\<rparr>]\<rparr>]
   \<and> sent (validateDocument_p1 (throwing (Other None)) bad_syntax no_documents)
      = [\<lparr>puri = d1, diagnostics =
           [\<lparr>severity = Error, range_of = origin, message = unknown_error,
             source = source_tag\<rparr>]\<rparr>]"
proof -
  let ?e = "Wenyan \<lparr>err_message = unexpected_end, err_line = None, err_column = None\<rparr>"
  have h: "\<not> (\<exists>pre ds post. marker_at hang unexpected_end pre ds post)"
    and l: "\<not> (\<exists>pre ds post. marker_at lie unexpected_end pre ds post)"
    using unexpected_end_no_marker not_digit_hang not_digit_lie by blast+
  have t: "try_block (throwing ?e) (content bad_syntax) = Inl ?e"
    and t': "try_block (throwing (Other None)) (content bad_syntax) = Inl (Other None)"
    by (rule try_block_throwing)+
  have c: "case ?e of
           Wenyan w \<Rightarrow>
             err_line w = None \<and> err_column w = None
             \<and> \<not> (\<exists>pre ds post. marker_at hang (err_message w) pre ds post)
             \<and> \<not> (\<exists>pre ds post. marker_at lie (err_message w) pre ds post)
         | Other m \<Rightarrow> True"
    using h l by simp
  have c': "case Other None of
           Wenyan w \<Rightarrow>
             err_line w = None \<and> err_column w = None
             \<and> \<not> (\<exists>pre ds post. marker_at hang (err_message w) pre ds post)
             \<and> \<not> (\<exists>pre ds post. marker_at lie (err_message w) pre ds post)
         | Other m \<Rightarrow> True"
    by simp
  have p0: "catch_p0 ?e =
      \<lparr>severity = Error, range_of = origin, message = unexpected_end, source = source_tag\<rparr>"
    using no_position_defaults_to_origin [OF t c, of no_documents]
    by (simp add: catch_p0_def)
  have p1: "catch_p1 ?e =
      \<lparr>severity = Error, range_of = origin, message = unexpected_end, source = source_tag\<rparr>"
    using no_position_defaults_to_origin [OF t c, of no_documents]
    by (simp add: catch_p1_def Let_def)
  have p2: "catch_p1 (Other None) =
      \<lparr>severity = Error, range_of = origin, message = unknown_error, source = source_tag\<rparr>"
    using no_position_defaults_to_origin [OF t' c', of no_documents]
    by (simp add: catch_p1_def other_diagnostic_def)
  show ?thesis
    using no_position_defaults_to_origin [OF t c, of no_documents]
      no_position_defaults_to_origin [OF t' c', of no_documents] h l p0 p1 p2
    by (simp add: no_documents_def bad_syntax_def create_def)
qed

text \<open>
  Claim C4, as amended. No copy of the server clamps. For a structured failure, every
  copy publishes one diagnostic; when the line and the column that the copy reads (the
  explicit fields in \<^verbatim>\<open>part_000\<close>, the numbers of the first markers of the message in
  \<^verbatim>\<open>part_001\<close> and \<^verbatim>\<open>part_002\<close>) are each absent or at least 1, no line or column of
  either end of its range is negative. A reported line or column of 0 is converted like
  any other number: in \<^verbatim>\<open>part_000\<close> the start line, or the start column, is then \<open>- 1\<close>.
\<close>

theorem positions_nonnegative_from_one:
  assumes "try_block c (content document) = Inl (Wenyan w)"
  shows "validateDocument_p0 c document st =
           st\<lparr>sent := sent st @ [\<lparr>puri = uri document, diagnostics = [catch_p0 (Wenyan w)]\<rparr>]\<rparr>
       \<and> validateDocument_p1 c document st =
           st\<lparr>sent := sent st @ [\<lparr>puri = uri document, diagnostics = [catch_p1 (Wenyan w)]\<rparr>]\<rparr>
       \<and> ((\<forall>L. err_line w = Some L \<longrightarrow> 1 \<le> L) \<and> (\<forall>C. err_column w = Some C \<longrightarrow> 1 \<le> C)
            \<longrightarrow> nonnegative (range_of (catch_p0 (Wenyan w))))
       \<and> ((\<forall>ds. match_marker hang (err_message w) = Some ds \<longrightarrow> 1 \<le> parseInt ds)
            \<and> (\<forall>ds. match_marker lie (err_message w) = Some ds \<longrightarrow> 1 \<le> parseInt ds)
            \<longrightarrow> nonnegative (range_of (catch_p1 (Wenyan w))))
       \<and> (err_line w = Some 0 \<longrightarrow> line (start_pos (range_of (catch_p0 (Wenyan w)))) = - 1)
       \<and> (err_column w = Some 0
            \<longrightarrow> character (start_pos (range_of (catch_p0 (Wenyan w)))) = - 1)"
proof -
  have p0: "nonnegative (range_of (catch_p0 (Wenyan w)))"
    if "\<forall>L. err_line w = Some L \<longrightarrow> 1 \<le> L" "\<forall>C. err_column w = Some C \<longrightarrow> 1 \<le> C"
    using that
    by (cases "err_line w"; cases "err_column w")
       (auto simp: nonnegative_def catch_p0_def minus1_def or0_def)
  have pos: "0 \<le> marker_pos u (err_message w)"
    if "\<forall>ds. match_marker u (err_message w) = Some ds \<longrightarrow> 1 \<le> parseInt ds" for u
    using that by (cases "match_marker u (err_message w)") (simp_all add: marker_pos_def)
  have p1: "nonnegative (range_of (catch_p1 (Wenyan w)))"
    if "\<forall>ds. match_marker hang (err_message w) = Some ds \<longrightarrow> 1 \<le> parseInt ds"
       "\<forall>ds. match_marker lie (err_message w) = Some ds \<longrightarrow> 1 \<le> parseInt ds"
    using pos [OF that(1)] pos [OF that(2)]
    by (simp add: nonnegative_def catch_p1_def Let_def)
  have z: "err_line w = Some 0 \<longrightarrow> line (start_pos (range_of (catch_p0 (Wenyan w)))) = - 1"
    "err_column w = Some 0 \<longrightarrow> character (start_pos (range_of (catch_p0 (Wenyan w)))) = - 1"
    by (simp_all add: catch_p0_def minus1_def or0_def)
  show ?thesis
    using assms p0 p1 z
    by (simp add: validateDocument_p0_throws validateDocument_p1_throws)
qed

theorem positions_nonnegative_from_one_witness:
  "match_marker hang line3_column5 = Some [51] \<and> parseInt [51] = 3
   \<and> match_marker lie line3_column5 = Some [53] \<and> parseInt [53] = 5
   \<and> nonnegative (range_of (catch_p0
      (Wenyan \<lparr>err_message = line3_column5, err_line = Some 1, err_column = Some 13\<rparr>)))
   \<and> nonnegative (range_of (catch_p1
      (Wenyan \<lparr>err_message = line3_column5, err_line = Some 1, err_column = Some 13\<rparr>)))
   \<and> sent (validateDocument_p0
        (throwing (Wenyan \<lparr>err_message = line3_column5, err_line = Some 1, err_column = Some 13\<rparr>))
        bad_syntax no_documents)
      = [\<lparr>puri = d1, diagnostics =
           [catch_p0 (Wenyan \<lparr>err_message = line3_column5, err_line = Some 1,
                              err_column = Some 13\<rparr>)]\<rparr>]
   \<and> line (start_pos (range_of (catch_p0
      (Wenyan \<lparr>err_message = line0_column0, err_line = Some 0, err_column = Some 0\<rparr>)))) = - 1
   \<and> character (start_pos (range_of (catch_p0
      (Wenyan \<lparr>err_message = line0_column0, err_line = Some 0, err_column = Some 0\<rparr>)))) = - 1"
proof -
  let ?w = "\<lparr>err_message = line3_column5, err_line = Some 1, err_column = Some 13\<rparr>"
  let ?z = "\<lparr>err_message = line0_column0, err_line = Some 0, err_column = Some 0\<rparr>"
  have t: "try_block (throwing (Wenyan ?w)) (content bad_syntax) = Inl (Wenyan ?w)"
    and tz: "try_block (throwing (Wenyan ?z)) (content bad_syntax) = Inl (Wenyan ?z)"
    by (rule try_block_throwing)+
  have m: "match_marker hang line3_column5 = Some [51]"
    "match_marker lie line3_column5 = Some [53]"
    by (simp_all add: line3_column5_def isDigit_def hang_def lie_def di_def)
  have v: "parseInt [51] = 3" "parseInt [53] = 5"
    by (simp_all add: parseInt_def)
  show ?thesis
    using positions_nonnegative_from_one [OF t, of no_documents]
      positions_nonnegative_from_one [OF tz, of no_documents] m v
    by (simp add: no_documents_def bad_syntax_def create_def)
qed

text \<open>
  A structured failure that reports line 0 and column 0: \<^verbatim>\<open>part_000\<close> publishes the range
  from \<open>(- 1, - 1)\<close> to \<open>(- 1, 1)\<close>, and \<^verbatim>\<open>part_001\<close>, for the message with the markers of
  line 0 and column 0, the range from \<open>(- 1, - 1)\<close> to \<open>(- 1, 0)\<close>.
\<close>

theorem zero_position_not_clamped:
  "sent (validateDocument_p0
      (throwing (Wenyan \<lparr>err_message = unexpected_end, err_line = Some 0, err_column = Some 0\<rparr>))
      bad_syntax no_documents)
    = [\<lparr>puri = d1, diagnostics =
          [\<lparr>severity = Error,
            range_of = \<lparr>start_pos = \<lparr>line = - 1, character = - 1\<rparr>,
                        end_pos = \<lparr>line = - 1, character = 1\<rparr>\<rparr>,
            message = unexpected_end, source = source_tag\<rparr>]\<rparr>]
   \<and> sent (validateDocument_p1
      (throwing (Wenyan \<lparr>err_message = line0_column0, err_line = None, err_column = None\<rparr>))
      bad_syntax no_documents)
    = [\<lparr>puri = d1, diagnostics =
          [\<lparr>severity = Error,
            range_of = \<lparr>start_pos = \<lparr>line = - 1, character = - 1\<rparr>,
                        end_pos = \<lparr>line = - 1, character = 0\<rparr>\<rparr>,
            message = line0_column0, source = source_tag\<rparr>]\<rparr>]
   \<and> \<not> nonnegative (range_of (catch_p0
         (Wenyan \<lparr>err_message = unexpected_end, err_line = Some 0, err_column = Some 0\<rparr>)))
   \<and> \<not> nonnegative (range_of (catch_p1
         (Wenyan \<lparr>err_message = line0_column0, err_line = None, err_column = None\<rparr>)))"
  by (simp add: validateDocument_p0_sent validateDocument_p1_sent try_block_throwing
      catch_p0_def catch_p1_def minus1_def or0_def marker_pos_def parseInt_def nonnegative_def
      line0_column0_def isDigit_def hang_def lie_def di_def Let_def
      no_documents_def bad_syntax_def create_def)

section \<open>Lifecycle notifications\<close>

text \<open>
  Claim C6. A change notification for an identifier that has no snapshot in the store
  leaves the server as it was: the store is the same, the validator does not run and
  nothing is published (the sequence of sent notifications is the same), and the handler
  returns. This holds in every copy of the server.
\<close>

theorem change_before_open_is_noop:
  assumes "documents st (change_uri params) = None"
  shows "onDidChangeTextDocument_p0 c params st = st
       \<and> onDidChangeTextDocument_p1 c params st = st"
  using assms
  by (simp add: onDidChangeTextDocument_p0_def onDidChangeTextDocument_p1_def)

theorem change_before_open_is_noop_witness:
  "documents no_documents
     (change_uri \<lparr>change_uri = d1, contentChanges = (), change_version = 2\<rparr>) = None
   \<and> onDidChangeTextDocument_p0 (throwing (Other None))
        \<lparr>change_uri = d1, contentChanges = (), change_version = 2\<rparr> no_documents = no_documents
   \<and> onDidChangeTextDocument_p1 (throwing (Other None))
        \<lparr>change_uri = d1, contentChanges = (), change_version = 2\<rparr> no_documents = no_documents"
proof -
  have h: "documents no_documents
             (change_uri \<lparr>change_uri = d1, contentChanges = (), change_version = 2\<rparr>) = None"
    by (simp add: no_documents_def)
  show ?thesis
    using change_before_open_is_noop [OF h, of "throwing (Other None)"] h by simp
qed

text \<open>
  Claim C7. A close notification removes the identifier's snapshot from the store
  (every other snapshot stays) and publishes the empty list of diagnostics for that
  identifier, whether or not the document was open.
\<close>

theorem close_removes_and_clears:
  "documents (onDidCloseTextDocument u st) = (documents st)(u := None)
   \<and> documents (onDidCloseTextDocument u st) u = None
   \<and> sent (onDidCloseTextDocument u st) = sent st @ [\<lparr>puri = u, diagnostics = []\<rparr>]"
  by (simp add: onDidCloseTextDocument_def sendDiagnostics_def)

section \<open>Requests on the store\<close>

lemma line_prefix_zai_x:
  "line_prefix accepting zai_x (position (caret 1)) = [32]"
  "line_prefix accepting zai_x (position (caret 2)) = [32, 20877]"
  "line_prefix accepting zai_x (position (caret 3)) = [32, 20877, 120]"
  by (simp_all add: line_prefix_def accepting_def getText_one_line_def offsetAt_def caret_def
      zai_x_def create_def)

lemma trim_zai_x:
  "trim [32] = []" "trim [32, 20877] = [20877]" "trim [32, 20877, 120] = [20877, 120]"
  by (simp_all add: trim_def isWhite_def)

text \<open>
  Claim C8. For an open document and a caret position, the completion handler of
  \<^verbatim>\<open>part_001\<close> and \<^verbatim>\<open>part_002\<close> returns the items of the table whose label starts with
  the trimmed text of the line before the caret, in the order of the table, and leaves
  the server as it was; it returns the whole table when the trimmed text is empty and the
  empty list when no label starts with it. The handler of \<^verbatim>\<open>part_000\<close> filters its own
  table of labels the same way.
\<close>

theorem completion_filters_by_prefix:
  assumes "documents st (td_uri params) = Some document"
  shows "onCompletion_p1 c params st =
           (filter (\<lambda>keyword. startsWith (label keyword)
                      (trim (line_prefix c document (position params)))) keywords_p1, st)
       \<and> (trim (line_prefix c document (position params)) = []
            \<longrightarrow> fst (onCompletion_p1 c params st) = keywords_p1)
       \<and> ((\<forall>keyword \<in> set keywords_p1.
               \<not> startsWith (label keyword) (trim (line_prefix c document (position params))))
            \<longrightarrow> fst (onCompletion_p1 c params st) = [])
       \<and> map label_p0 (fst (onCompletion_p0 c params st)) =
           filter (\<lambda>kw. startsWith kw (trim (line_prefix c document (position params))))
             keywords_p0
       \<and> snd (onCompletion_p0 c params st) = st"
proof -
  let ?p = "trim (line_prefix c document (position params))"
  have eq: "(\<lambda>keyword. ?p = [] \<or> startsWith (label keyword) ?p)
          = (\<lambda>keyword. startsWith (label keyword) ?p)"
    by (auto simp: startsWith_def)
  have main: "onCompletion_p1 c params st =
      (filter (\<lambda>keyword. startsWith (label keyword) ?p) keywords_p1, st)"
    using assms by (simp add: onCompletion_p1_def Let_def eq)
  have empty: "?p = [] \<longrightarrow> fst (onCompletion_p1 c params st) = keywords_p1"
    by (simp add: main startsWith_def)
  have none: "(\<forall>keyword \<in> set keywords_p1. \<not> startsWith (label keyword) ?p)
              \<longrightarrow> fst (onCompletion_p1 c params st) = []"
    by (simp add: main filter_empty_conv)
  have p0: "map label_p0 (fst (onCompletion_p0 c params st)) =
      filter (\<lambda>kw. startsWith kw ?p) keywords_p0"
    "snd (onCompletion_p0 c params st) = st"
    using assms by (simp_all add: onCompletion_p0_def Let_def comp_def)
  show ?thesis
    using main empty none p0 by simp
qed

theorem completion_filters_by_prefix_witness:
  "documents one_open (td_uri (caret 2)) = Some zai_x
   \<and> map label (fst (onCompletion_p1 accepting (caret 2) one_open))
       = [[20877, 33509], [20877, 21017]]
   \<and> fst (onCompletion_p1 accepting (caret 1) one_open) = keywords_p1
   \<and> fst (onCompletion_p1 accepting (caret 3) one_open) = []
   \<and> map label_p0 (fst (onCompletion_p0 accepting (caret 2) one_open)) = []"
proof -
  have h: "documents one_open (td_uri (caret n)) = Some zai_x" for n
    by (simp add: one_open_def caret_def)
  have none: "\<forall>keyword \<in> set keywords_p1.
      \<not> startsWith (label keyword) (trim (line_prefix accepting zai_x (position (caret 3))))"
    by (simp add: line_prefix_zai_x trim_zai_x keywords_p1_def startsWith_def)
  have two: "map label (filter (\<lambda>keyword. startsWith (label keyword) [20877]) keywords_p1)
      = [[20877, 33509], [20877, 21017]]"
    by (simp add: keywords_p1_def startsWith_def)
  have zero: "filter (\<lambda>kw. startsWith kw [20877]) keywords_p0 = []"
    by (simp add: keywords_p0_def startsWith_def)
  show ?thesis
    using completion_filters_by_prefix [OF h [of 2], of accepting]
      completion_filters_by_prefix [OF h [of 1], of accepting]
      completion_filters_by_prefix [OF h [of 3], of accepting] none two zero h
    by (simp add: line_prefix_zai_x trim_zai_x startsWith_def)
qed

text \<open>
  Claim C9. The completion-resolve handler returns the item it was given, unchanged, and
  leaves the server as it was.
\<close>

theorem completion_resolve_identity:
  "onCompletionResolve item st = (item, st)"
  by (simp add: onCompletionResolve_def)

text \<open>
  Claim C10. A completion, definition or hover request for an identifier that is not in
  the store returns the empty result (the empty list for completion, null for definition
  and hover) and the unchanged server; the result does not depend on the text-document
  library, which is not called.
\<close>

theorem request_on_unknown_document:
  assumes "documents st (td_uri params) = None"
  shows "onCompletion_p0 c params st = ([], st)
       \<and> onCompletion_p1 c params st = ([], st)
       \<and> onDefinition params st = (None, st)
       \<and> onHover c params st = (None, st)"
  using assms
  by (simp add: onCompletion_p0_def onCompletion_p1_def onDefinition_def onHover_def)

theorem request_on_unknown_document_witness:
  "documents no_documents
     (td_uri \<lparr>td_uri = d1, position = \<lparr>line = 0, character = 3\<rparr>\<rparr>) = None
   \<and> onCompletion_p0 accepting \<lparr>td_uri = d1, position = \<lparr>line = 0, character = 3\<rparr>\<rparr>
        no_documents = ([], no_documents)
   \<and> onCompletion_p1 accepting \<lparr>td_uri = d1, position = \<lparr>line = 0, character = 3\<rparr>\<rparr>
        no_documents = ([], no_documents)
   \<and> onDefinition \<lparr>td_uri = d1, position = \<lparr>line = 0, character = 3\<rparr>\<rparr>
        no_documents = (None, no_documents)
   \<and> onHover accepting \<lparr>td_uri = d1, position = \<lparr>line = 0, character = 3\<rparr>\<rparr>
        no_documents = (None, no_documents)"
proof -
  have h: "documents no_documents
             (td_uri \<lparr>td_uri = d1, position = \<lparr>line = 0, character = 3\<rparr>\<rparr>) = None"
    by (simp add: no_documents_def)
  show ?thesis
    using request_on_unknown_document [OF h, of accepting] h by simp
qed

end
